theory Spec2Isabelle
  imports Main "HOL-Library.Word" "HOL-Library.Multiset"
begin

section \<open>Values shared by the packages\<close>

text \<open>
  A non-nil Go \<open>error\<close> is kept by the text its \<open>Error()\<close> method returns; a value of
  type \<open>error\<close> in the Go sense (nil or not) is an \<open>error option\<close>.
\<close>

datatype error = errors_New string

fun Error :: "error \<Rightarrow> string" where
  "Error (errors_New s) = s"

text \<open>
  \<open>uuid.UUID\<close> is a \<open>[16]byte\<close>: a 128-bit word, most significant byte first. Its
  text form (\<open>String\<close>, also used by \<open>MarshalText\<close>) is the usual 8-4-4-4-12 grouping of
  lower-case hexadecimal digits.
\<close>

type_synonym UUID = "128 word"

definition hex_digit :: "nat \<Rightarrow> char" where
  "hex_digit n = ''0123456789abcdef'' ! (n mod 16)"

definition hex_byte :: "8 word \<Rightarrow> string" where
  "hex_byte b = [hex_digit (unat b div 16), hex_digit (unat b mod 16)]"

definition UUID_bytes :: "UUID \<Rightarrow> 8 word list" where
  "UUID_bytes u = map (\<lambda>i. ucast (drop_bit (8 * (15 - i)) u)) [0..<16]"

definition UUID_String :: "UUID \<Rightarrow> string" where
  "UUID_String u =
     (let h = map hex_byte (UUID_bytes u)
      in concat (take 4 h) @ ''-'' @ concat (take 2 (drop 4 h)) @ ''-'' @
         concat (take 2 (drop 6 h)) @ ''-'' @ concat (take 2 (drop 8 h)) @ ''-'' @
         concat (drop 10 h))"

text \<open>
  A JSON document is kept as a tree, not as bytes: string escaping and number
  formatting belong to \<open>encoding/json\<close> and play no part in what follows.
\<close>

datatype json =
    JNull
  | JString string
  | JNumber int
  | JArray "json list"
  | JObject "(string \<times> json) list"

section \<open>Package record: the model (model.go)\<close>

text \<open>
  \<open>gorm.Model\<close>, embedded in \<open>Record\<close> by pointer. Times are kept by their RFC 3339
  text, the form in which they reach a JSON document.
\<close>

record gorm_Model =
  Model_ID :: "64 word"
  CreatedAt :: string
  UpdatedAt :: string
  DeletedAt :: "string option"

text \<open>
  \<^verbatim>\<open>
  type Record struct {
      ID          uuid.UUID
      Name        string
      Age         int
      Address     string
      PhoneNumber string
      *gorm.Model
  }
  \<close>
  \<open>Age\<close> is a Go \<open>int\<close> (64 bits, read signed); the embedded pointer is \<open>None\<close> when nil.
\<close>

record Record =
  ID :: UUID
  Name :: string
  Age :: "64 word"
  Address :: string
  PhoneNumber :: string
  Model :: "gorm_Model option"

text \<open>
  What \<open>encoding/json\<close> makes of a \<open>Record\<close>: the exported fields under their Go names
  in declaration order; the fields promoted from the embedded \<open>*gorm.Model\<close> follow when
  the pointer is not nil, except its \<open>ID\<close>, which the outer \<open>ID\<close> hides.
\<close>

definition Marshal_Model :: "gorm_Model option \<Rightarrow> (string \<times> json) list" where
  "Marshal_Model p =
     (case p of
        None \<Rightarrow> []
      | Some m \<Rightarrow>
          [(''CreatedAt'', JString (CreatedAt m)),
           (''UpdatedAt'', JString (UpdatedAt m)),
           (''DeletedAt'', (case DeletedAt m of None \<Rightarrow> JNull | Some t \<Rightarrow> JString t))])"

definition Marshal_Record :: "Record \<Rightarrow> json" where
  "Marshal_Record r =
     JObject
       ([(''ID'', JString (UUID_String (ID r))),
         (''Name'', JString (Name r)),
         (''Age'', JNumber (sint (Age r))),
         (''Address'', JString (Address r)),
         (''PhoneNumber'', JString (PhoneNumber r))] @
        Marshal_Model (Model r))"

text \<open>
  Records live on a heap and are passed by pointer (\<open>*Record\<close>); a pointer is an
  address or nil. The world a request runs in holds the heap, the next unused address
  and the table behind the database handle.
\<close>

type_synonym addr = nat

record Db =
  rows :: "Record list"

record world =
  heap :: "addr \<rightharpoonup> Record"
  next_free :: addr
  Database :: Db

text \<open>
  The five values \<open>NewRecord\<close> draws from \<open>uuid.New\<close>, \<open>faker.Name\<close>, \<open>rand.Int\<close>,
  \<open>gofakeit.Address().Address\<close> and \<open>gofakeit.Phone\<close> are inputs of the model.
\<close>

record generated =
  uuid_New :: UUID
  faker_Name :: string
  rand_Int :: "64 word"
  gofakeit_Address :: string
  gofakeit_Phone :: string

definition NewRecord :: "generated \<Rightarrow> world \<Rightarrow> addr \<times> world" where
  "NewRecord g s =
     (let p = next_free s;
          r = \<lparr>ID = uuid_New g, Name = faker_Name g, Age = rand_Int g,
               Address = gofakeit_Address g, PhoneNumber = gofakeit_Phone g,
               Model = None\<rparr>
      in (p, s\<lparr>heap := (heap s)(p \<mapsto> r), next_free := Suc p\<rparr>))"

section \<open>The response writer of \<open>net/http\<close>\<close>

text \<open>
  What \<open>net/http\<close> promises of an \<open>http.ResponseWriter\<close>, as far as the handlers use
  it. \<open>Header\<close> is the header map the handler edits. The first \<open>WriteHeader\<close> fixes
  the status and sends the header map as it stands (\<open>sent\<close>); a later \<open>WriteHeader\<close>
  changes nothing and is logged as superfluous. \<open>Write\<close> sends status 200 first when
  no status was sent, then appends to the body. The body (\<open>written\<close>) is the list of the pieces
  written: plain text, or a JSON document followed by a newline as \<open>json.Encoder\<close>
  writes it.
\<close>

datatype chunk = Plain string | Doc json

record ResponseWriter =
  Header :: "string \<rightharpoonup> string"
  wroteHeader :: bool
  statusCode :: nat
  sent :: "string \<rightharpoonup> string"
  written :: "chunk list"
  superfluous :: "nat list"

definition NewResponseWriter :: ResponseWriter where
  "NewResponseWriter =
     \<lparr>Header = Map.empty, wroteHeader = False, statusCode = 0, sent = Map.empty,
      written = [], superfluous = []\<rparr>"

definition Header_Set :: "string \<Rightarrow> string \<Rightarrow> ResponseWriter \<Rightarrow> ResponseWriter" where
  "Header_Set k v w = w\<lparr>Header := (Header w)(k \<mapsto> v)\<rparr>"

definition Header_Del :: "string \<Rightarrow> ResponseWriter \<Rightarrow> ResponseWriter" where
  "Header_Del k w = w\<lparr>Header := (Header w)(k := None)\<rparr>"

definition WriteHeader :: "nat \<Rightarrow> ResponseWriter \<Rightarrow> ResponseWriter" where
  "WriteHeader code w =
     (if wroteHeader w then w\<lparr>superfluous := superfluous w @ [code]\<rparr>
      else w\<lparr>wroteHeader := True, statusCode := code, sent := Header w\<rparr>)"

definition Write :: "chunk \<Rightarrow> ResponseWriter \<Rightarrow> ResponseWriter" where
  "Write c w =
     (let w' = (if wroteHeader w then w else WriteHeader 200 w)
      in w'\<lparr>written := written w' @ [c]\<rparr>)"

text \<open>
  \<open>http.Error(w, error, code)\<close>: drops \<open>Content-Length\<close>, sets the content type to
  plain text and \<open>X-Content-Type-Options\<close>, writes the status, then prints the message
  and a newline.
\<close>

definition http_Error :: "ResponseWriter \<Rightarrow> string \<Rightarrow> nat \<Rightarrow> ResponseWriter" where
  "http_Error w msg code =
     Write (Plain (msg @ [CHR 0x0A]))
       (WriteHeader code
         (Header_Set ''X-Content-Type-Options'' ''nosniff''
           (Header_Set ''Content-Type'' ''text/plain; charset=utf-8''
             (Header_Del ''Content-Length'' w))))"

definition StatusOK :: nat where "StatusOK = 200"
definition StatusCreated :: nat where "StatusCreated = 201"
definition StatusBadRequest :: nat where "StatusBadRequest = 400"
definition StatusInternalServerError :: nat where "StatusInternalServerError = 500"

section \<open>Package response (response.go)\<close>

text \<open>
  \<^verbatim>\<open>
  func Json(w http.ResponseWriter, data any, status int) {
      w.Header().Set("Content-Type", "application/json")
      w.WriteHeader(status)
      err := json.NewEncoder(w).Encode(data)
      if err != nil {
          log.Fatalf("Error while encoding response: %v", err)
      }
  }
  \<close>
  \<open>data\<close> arrives as what the encoder makes of it: the document, or the encoder's
  error. The encoder writes nothing when it fails; \<open>log.Fatalf\<close> ends the process, which
  is the result \<open>None\<close>.
\<close>

definition Json :: "ResponseWriter \<Rightarrow> error + json \<Rightarrow> nat \<Rightarrow> ResponseWriter option" where
  "Json w data status =
     (let w1 = Header_Set ''Content-Type'' ''application/json'' w;
          w2 = WriteHeader status w1
      in case data of
           Inr doc \<Rightarrow> Some (Write (Doc doc) w2)
         | Inl err \<Rightarrow> None)"

text \<open>
  The three kinds of value the service hands to \<open>Json\<close>, as the encoder sees them: a
  \<open>*Record\<close> (nil is \<open>null\<close>), a \<open>[]Record\<close> (a nil slice is \<open>null\<close>, an empty one
  \<open>[]\<close>) and a string. None of them makes the encoder fail.
\<close>

definition Marshal_RecordPtr :: "(addr \<rightharpoonup> Record) \<Rightarrow> addr option \<Rightarrow> error + json" where
  "Marshal_RecordPtr h p =
     (case p of
        None \<Rightarrow> Inr JNull
      | Some a \<Rightarrow> (case h a of None \<Rightarrow> Inr JNull | Some r \<Rightarrow> Inr (Marshal_Record r)))"

definition Marshal_Records :: "Record list option \<Rightarrow> error + json" where
  "Marshal_Records rs =
     (case rs of None \<Rightarrow> Inr JNull | Some xs \<Rightarrow> Inr (JArray (map Marshal_Record xs)))"

definition Marshal_string :: "string \<Rightarrow> error + json" where
  "Marshal_string s = Inr (JString s)"

section \<open>The database handle of \<open>gorm\<close>\<close>

text \<open>
  The repository reaches the store through two calls of \<open>gorm\<close>, \<open>Create\<close> and \<open>Find\<close>.
  What each call meets in the outside world is an input of the model, one per call.

  For \<open>Create\<close>: whether the insert fails (connection lost, constraint violated) and
  with which error, and the audit metadata \<open>gorm\<close> leaves in the entity's embedded
  \<open>Model\<close>. \<open>gorm\<close> writes no other field of the entity: \<open>ID\<close> is not an
  auto-increment key and no field has a database default. A nil pointer is refused
  with \<open>gorm.ErrInvalidValue\<close> (an address with no record behind it, which Go does
  not have, is treated alike). On success one row, the entity as it now stands, joins
  the table.
\<close>

record create_env =
  failure :: "error option"
  stamped :: "gorm_Model option"

definition ErrInvalidValue :: error where
  "ErrInvalidValue = errors_New ''invalid value, should be pointer to struct or slice''"

definition gorm_Create :: "create_env \<Rightarrow> addr option \<Rightarrow> world \<Rightarrow> error option \<times> world" where
  "gorm_Create env p s =
     (case p of
        None \<Rightarrow> (Some ErrInvalidValue, s)
      | Some a \<Rightarrow>
          (case heap s a of
             None \<Rightarrow> (Some ErrInvalidValue, s)
           | Some r \<Rightarrow>
               (let r' = r\<lparr>Model := stamped env\<rparr>;
                    s' = s\<lparr>heap := (heap s)(a \<mapsto> r')\<rparr>
                in case failure env of
                     Some e \<Rightarrow> (Some e, s')
                   | None \<Rightarrow>
                       (None, s'\<lparr>Database := \<lparr>rows = rows (Database s') @ [r']\<rparr>\<rparr>))))"

text \<open>
  For \<open>Find\<close>: the query fails with an error, or it answers with a slice that \<open>gorm\<close>
  stores into the destination. The answer is an input because the storage chooses
  the order of the rows and \<open>gorm\<close> the slice it builds; \<open>answers\<close> says when an answer
  is one the table can give: it lists the table's rows, each as often as it is stored.
  \<open>Find\<close> reads only: the world it returns is the one it was given.
\<close>

datatype find_env = FindFails error | Found "Record list option"

fun elems :: "'a list option \<Rightarrow> 'a list" where
  "elems None = []"
| "elems (Some xs) = xs"

fun answers :: "find_env \<Rightarrow> world \<Rightarrow> bool" where
  "answers (FindFails e) s = True"
| "answers (Found rs) s = (mset (elems rs) = mset (rows (Database s)))"

fun gorm_Find ::
  "find_env \<Rightarrow> Record list option \<Rightarrow> world \<Rightarrow> (Record list option \<times> error option) \<times> world"
where
  "gorm_Find (FindFails e) dest s = ((dest, Some e), s)"
| "gorm_Find (Found rs) dest s = ((rs, None), s)"

section \<open>Package record: the repository (repository.go)\<close>

text \<open>
  \<^verbatim>\<open>
  func (r *RecordRepository) CreateRecord(Record *Record) (*Record, error) {
      result := r.Database.Create(Record)
      if result.Error != nil {
          return nil, result.Error
      }
      return Record, nil
  }
  \<close>
\<close>

definition RecordRepository_CreateRecord ::
  "create_env \<Rightarrow> addr option \<Rightarrow> world \<Rightarrow> (addr option \<times> error option) \<times> world"
where
  "RecordRepository_CreateRecord env Record s =
     (let (result_Error, s') = gorm_Create env Record s
      in case result_Error of
           Some e \<Rightarrow> ((None, Some e), s')
         | None \<Rightarrow> ((Record, None), s'))"

text \<open>
  \<^verbatim>\<open>
  func (r *RecordRepository) GetRecords() ([]Record, error) {
      var records []Record
      result := r.Database.Find(&records)
      if result.Error != nil {
          return nil, result.Error
      }
      return records, nil
  }
  \<close>
\<close>

definition RecordRepository_GetRecords ::
  "find_env \<Rightarrow> world \<Rightarrow> (Record list option \<times> error option) \<times> world"
where
  "RecordRepository_GetRecords env s =
     (let ((records, result_Error), s') = gorm_Find env None s
      in case result_Error of
           Some e \<Rightarrow> ((None, Some e), s')
         | None \<Rightarrow> ((records, None), s'))"

section \<open>Package record: the handlers (handler.go)\<close>

text \<open>
  A request, as far as a handler could read it. Neither handler does: the
  parameter \<open>r\<close> is never used in their bodies.
\<close>

record Request =
  Method :: string
  Path :: string
  Body :: string

text \<open>
  \<^verbatim>\<open>
  func (h *RecordHandler) CreateRecord() http.HandlerFunc {
      return func(w http.ResponseWriter, r *http.Request) {
          log.Println("CreateRecord")
          record := NewRecord()
          createRecord, err := h.RecordRepository.CreateRecord(record)
          if err != nil {
              http.Error(w, err.Error(), http.StatusInternalServerError)
          }
          response.Json(w, createRecord, http.StatusCreated)
      }
  }
  \<close>
  The \<open>if\<close> has no \<open>return\<close>: \<open>response.Json\<close> runs on both paths. Logging is left out.
\<close>

definition RecordHandler_CreateRecord ::
  "generated \<Rightarrow> create_env \<Rightarrow> ResponseWriter \<Rightarrow> Request \<Rightarrow> world \<Rightarrow> ResponseWriter option \<times> world"
where
  "RecordHandler_CreateRecord g env w r s =
     (let (record, s1) = NewRecord g s;
          ((createRecord, err), s2) = RecordRepository_CreateRecord env (Some record) s1;
          w1 = (case err of
                  Some e \<Rightarrow> http_Error w (Error e) StatusInternalServerError
                | None \<Rightarrow> w)
      in (Json w1 (Marshal_RecordPtr (heap s2) createRecord) StatusCreated, s2))"

text \<open>
  \<^verbatim>\<open>
  func (h *RecordHandler) GetRecords() http.HandlerFunc {
      return func(w http.ResponseWriter, r *http.Request) {
          log.Println("GetRecords")
          records, err := h.RecordRepository.GetRecords()
          if err != nil {
              http.Error(w, err.Error(), http.StatusInternalServerError)
          }
          response.Json(w, records, http.StatusOK)
      }
  }
  \<close>
\<close>

definition RecordHandler_GetRecords ::
  "find_env \<Rightarrow> ResponseWriter \<Rightarrow> Request \<Rightarrow> world \<Rightarrow> ResponseWriter option \<times> world"
where
  "RecordHandler_GetRecords env w r s =
     (let ((records, err), s1) = RecordRepository_GetRecords env s;
          w1 = (case err of
                  Some e \<Rightarrow> http_Error w (Error e) StatusInternalServerError
                | None \<Rightarrow> w)
      in (Json w1 (Marshal_Records records) StatusOK, s1))"

section \<open>Package request (decode.go, validate.go, handle.go)\<close>

text \<open>
  \<^verbatim>\<open>
  func Decode[T any](body io.Reader) (T, error) {
      var payload T
      err := json.NewDecoder(body).Decode(&payload)
      if err != nil {
          return payload, err
      }
      return payload, nil
  }
  \<close>
  The decoder of \<open>encoding/json\<close> for the shape \<open>T\<close> is the parameter \<open>dec\<close>: given the
  body and the zero value of \<open>T\<close> it returns the payload as it left it and its error.
\<close>

definition Decode :: "(string \<Rightarrow> 'T \<Rightarrow> 'T \<times> error option) \<Rightarrow> 'T \<Rightarrow> string \<Rightarrow> 'T \<times> error option" where
  "Decode dec zero body =
     (let (payload, err) = dec body zero
      in case err of
           Some e \<Rightarrow> (payload, Some e)
         | None \<Rightarrow> (payload, None))"

text \<open>
  \<^verbatim>\<open>
  func IsValid[T any](payload T) error {
      validate := validator.New()
      err := validate.Struct(payload)
      return err
  }
  \<close>
  \<open>validate.Struct\<close> for the shape \<open>T\<close> is the parameter \<open>val\<close>.
\<close>

definition IsValid :: "('T \<Rightarrow> error option) \<Rightarrow> 'T \<Rightarrow> error option" where
  "IsValid val payload = (let err = val payload in err)"

text \<open>
  \<^verbatim>\<open>
  func HandleBody[T any](w *http.ResponseWriter, r *http.Request) (*T, error) {
      body, err := Decode[T](r.Body)
      if err != nil {
          response.Json(*w, err.Error(), http.StatusBadRequest)
          return nil, err
      }
      err = IsValid[T](body)
      if err != nil {
          response.Json(*w, err.Error(), http.StatusBadRequest)
          return nil, err
      }
      return &body, nil
  }
  \<close>
  The result is the writer after the call (\<open>None\<close> when \<open>Json\<close> ended the process),
  the payload pointer (\<open>None\<close> is nil) and the error.
\<close>

definition HandleBody ::
  "(string \<Rightarrow> 'T \<Rightarrow> 'T \<times> error option) \<Rightarrow> 'T \<Rightarrow> ('T \<Rightarrow> error option) \<Rightarrow>
   ResponseWriter \<Rightarrow> Request \<Rightarrow> ResponseWriter option \<times> 'T option \<times> error option"
where
  "HandleBody dec zero val w r =
     (case Decode dec zero (Body r) of
        (body, Some err) \<Rightarrow>
          (Json w (Marshal_string (Error err)) StatusBadRequest, None, Some err)
      | (body, None) \<Rightarrow>
          (case IsValid val body of
             Some err \<Rightarrow>
               (Json w (Marshal_string (Error err)) StatusBadRequest, None, Some err)
           | None \<Rightarrow> (Some w, Some body, None)))"

section \<open>The decoder of \<open>encoding/json\<close>\<close>

text \<open>
  \<open>json.NewDecoder(body).Decode(&payload)\<close> works in two steps. It first reads the
  next JSON value from the input, one byte at a time, with the state machine of
  \<open>scanner.go\<close>; it then stores that value into the payload. The state machine is
  followed state by state below, except that it here also builds the value it reads.

  A value read: number literals keep their text, strings are unquoted.
\<close>

datatype jvalue =
    VNull
  | VBool bool
  | VNumber string
  | VString string
  | VArray "jvalue list"
  | VObject "(string \<times> jvalue) list"

text \<open>
  The parse state: the arrays and objects that are open, innermost first, with what
  was read of each. An object that holds a key is waiting for the colon or the value.
\<close>

datatype frame =
    ArrayFrame "jvalue list"
  | ObjectFrame "(string \<times> jvalue) list" "string option"

text \<open>
  The states of the scanner, under the names of \<open>scanner.go\<close>. The states inside a
  string or a number carry the text read so far, \<open>InLiteral\<close> the name of the literal,
  what is left of it and its value. \<open>EndTop\<close> is the scanner after a top-level string,
  number or literal: it wants one more byte.
\<close>

datatype step =
    BeginValueOrEmpty
  | BeginValue
  | BeginStringOrEmpty
  | BeginString
  | EndValue
  | InString string
  | InStringEsc string
  | InStringEscU string "nat list"
  | Neg string
  | Zero string
  | One string
  | Dot string
  | Dot0 string
  | Exp string
  | ESign string
  | E0 string
  | InLiteral string string jvalue
  | EndTop jvalue

text \<open>
  What a byte does: the scan goes on, the value is complete (\<open>scanEnd\<close>), or the byte
  is an error in the given context.
\<close>

datatype fed =
    Continue step "frame list"
  | End jvalue
  | SyntaxError char string

definition isSpace :: "char \<Rightarrow> bool" where
  "isSpace c = (c = CHR '' '' \<or> c = CHR 0x09 \<or> c = CHR 0x0D \<or> c = CHR 0x0A)"

definition isDigit :: "char \<Rightarrow> bool" where
  "isDigit c = (48 \<le> (of_char c :: nat) \<and> (of_char c :: nat) \<le> 57)"

definition hexval :: "char \<Rightarrow> nat option" where
  "hexval c =
     (let n = (of_char c :: nat)
      in if 48 \<le> n \<and> n \<le> 57 then Some (n - 48)
         else if 97 \<le> n \<and> n \<le> 102 then Some (n - 87)
         else if 65 \<le> n \<and> n \<le> 70 then Some (n - 55)
         else None)"

text \<open>
  The character after a backslash, and the bytes of a \<open>\u\<close> escape. A surrogate
  becomes U+FFFD; \<open>encoding/json\<close> does so for a lone surrogate and joins a valid
  pair of them, which is not followed here. Nor is its replacement of bytes that
  are not UTF-8 inside a string: the bytes are kept.
\<close>

definition unescape :: "char \<Rightarrow> char option" where
  "unescape c =
     (if c = CHR 0x22 \<or> c = CHR 0x5C \<or> c = CHR ''/'' then Some c
      else if c = CHR ''b'' then Some (CHR 0x08)
      else if c = CHR ''f'' then Some (CHR 0x0C)
      else if c = CHR ''n'' then Some (CHR 0x0A)
      else if c = CHR ''r'' then Some (CHR 0x0D)
      else if c = CHR ''t'' then Some (CHR 0x09)
      else None)"

definition utf8 :: "nat \<Rightarrow> string" where
  "utf8 n =
     (if n < 0x80 then [char_of n]
      else if n < 0x800 then [char_of (0xC0 + n div 64), char_of (0x80 + n mod 64)]
      else if 0xD800 \<le> n \<and> n < 0xE000 then [CHR 0xEF, CHR 0xBF, CHR 0xBD]
      else [char_of (0xE0 + n div 4096), char_of (0x80 + n div 64 mod 64),
            char_of (0x80 + n mod 64)])"

text \<open>
  A string, number or literal is complete. At top level the scanner wants one more
  byte; inside an array the value joins it; inside an object a string is the key when
  none is held, and any value completes the pair when one is.
\<close>

fun scalar_done :: "jvalue \<Rightarrow> frame list \<Rightarrow> fed" where
  "scalar_done v [] = Continue (EndTop v) []"
| "scalar_done v (ArrayFrame vs # st) = Continue EndValue (ArrayFrame (vs @ [v]) # st)"
| "scalar_done v (ObjectFrame ms (Some k) # st) =
     Continue EndValue (ObjectFrame (ms @ [(k, v)]) None # st)"
| "scalar_done (VString k) (ObjectFrame ms None # st) =
     Continue EndValue (ObjectFrame ms (Some k) # st)"
| "scalar_done v (ObjectFrame ms None # st) = Continue EndValue (ObjectFrame ms None # st)"

text \<open>
  An array or object is closed. At top level the value ends with its bracket: the
  decoder does not wait for the byte after it.
\<close>

fun container_done :: "jvalue \<Rightarrow> frame list \<Rightarrow> fed" where
  "container_done v [] = End v"
| "container_done v (f # st) = scalar_done v (f # st)"

text \<open>\<open>stateEndValue\<close>: the byte after a key, a pair or an element.\<close>

fun end_value :: "frame list \<Rightarrow> char \<Rightarrow> fed" where
  "end_value [] c = SyntaxError c ''after top-level value''"
| "end_value (ObjectFrame ms (Some k) # st) c =
     (if isSpace c then Continue EndValue (ObjectFrame ms (Some k) # st)
      else if c = CHR '':'' then Continue BeginValue (ObjectFrame ms (Some k) # st)
      else SyntaxError c ''after object key'')"
| "end_value (ObjectFrame ms None # st) c =
     (if isSpace c then Continue EndValue (ObjectFrame ms None # st)
      else if c = CHR '','' then Continue BeginString (ObjectFrame ms None # st)
      else if c = CHR ''}'' then container_done (VObject ms) st
      else SyntaxError c ''after object key:value pair'')"
| "end_value (ArrayFrame vs # st) c =
     (if isSpace c then Continue EndValue (ArrayFrame vs # st)
      else if c = CHR '','' then Continue BeginValue (ArrayFrame vs # st)
      else if c = CHR '']'' then container_done (VArray vs) st
      else SyntaxError c ''after array element'')"

text \<open>A number ends at the byte \<open>c\<close>, which is then the byte after a value.\<close>

fun after_number :: "string \<Rightarrow> frame list \<Rightarrow> char \<Rightarrow> fed" where
  "after_number t [] c =
     (if isSpace c then End (VNumber t) else SyntaxError c ''after top-level value'')"
| "after_number t (f # st) c =
     (case scalar_done (VNumber t) (f # st) of
        Continue s st' \<Rightarrow> end_value st' c
      | End v \<Rightarrow> End v
      | SyntaxError d ctx \<Rightarrow> SyntaxError d ctx)"

text \<open>\<open>stateBeginValue\<close>.\<close>

definition begin_value :: "frame list \<Rightarrow> char \<Rightarrow> fed" where
  "begin_value st c =
     (if isSpace c then Continue BeginValue st
      else if c = CHR ''{'' then Continue BeginStringOrEmpty (ObjectFrame [] None # st)
      else if c = CHR ''['' then Continue BeginValueOrEmpty (ArrayFrame [] # st)
      else if c = CHR 0x22 then Continue (InString []) st
      else if c = CHR ''-'' then Continue (Neg [c]) st
      else if c = CHR ''0'' then Continue (Zero [c]) st
      else if c = CHR ''t'' then Continue (InLiteral ''true'' ''rue'' (VBool True)) st
      else if c = CHR ''f'' then Continue (InLiteral ''false'' ''alse'' (VBool False)) st
      else if c = CHR ''n'' then Continue (InLiteral ''null'' ''ull'' VNull) st
      else if isDigit c then Continue (One [c]) st
      else SyntaxError c ''looking for beginning of value'')"

definition begin_string :: "frame list \<Rightarrow> char \<Rightarrow> fed" where
  "begin_string st c =
     (if isSpace c then Continue BeginString st
      else if c = CHR 0x22 then Continue (InString []) st
      else SyntaxError c ''looking for beginning of object key string'')"

definition zero_next :: "string \<Rightarrow> frame list \<Rightarrow> char \<Rightarrow> fed" where
  "zero_next t st c =
     (if c = CHR ''.'' then Continue (Dot (t @ [c])) st
      else if c = CHR ''e'' \<or> c = CHR ''E'' then Continue (Exp (t @ [c])) st
      else after_number t st c)"

definition esign_next :: "string \<Rightarrow> frame list \<Rightarrow> char \<Rightarrow> fed" where
  "esign_next t st c =
     (if isDigit c then Continue (E0 (t @ [c])) st
      else SyntaxError c ''in exponent of numeric literal'')"

text \<open>One byte in one state.\<close>

fun feed :: "step \<Rightarrow> frame list \<Rightarrow> char \<Rightarrow> fed" where
  "feed BeginValueOrEmpty st c =
     (if isSpace c then Continue BeginValueOrEmpty st
      else if c = CHR '']'' then end_value st c
      else begin_value st c)"
| "feed BeginValue st c = begin_value st c"
| "feed BeginStringOrEmpty st c =
     (if isSpace c then Continue BeginStringOrEmpty st
      else if c = CHR ''}'' then end_value st c
      else begin_string st c)"
| "feed BeginString st c = begin_string st c"
| "feed EndValue st c = end_value st c"
| "feed (InString s) st c =
     (if c = CHR 0x22 then scalar_done (VString s) st
      else if c = CHR 0x5C then Continue (InStringEsc s) st
      else if (of_char c :: nat) < 0x20 then SyntaxError c ''in string literal''
      else Continue (InString (s @ [c])) st)"
| "feed (InStringEsc s) st c =
     (case unescape c of
        Some d \<Rightarrow> Continue (InString (s @ [d])) st
      | None \<Rightarrow>
          (if c = CHR ''u'' then Continue (InStringEscU s []) st
           else SyntaxError c ''in string escape code''))"
| "feed (InStringEscU s hs) st c =
     (case hexval c of
        None \<Rightarrow> SyntaxError c (''in '' @ [CHR 0x5C] @ ''u hexadecimal character escape'')
      | Some h \<Rightarrow>
          (if length hs = 3
           then Continue (InString (s @ utf8 (fold (\<lambda>d n. 16 * n + d) (hs @ [h]) 0))) st
           else Continue (InStringEscU s (hs @ [h])) st))"
| "feed (Neg t) st c =
     (if c = CHR ''0'' then Continue (Zero (t @ [c])) st
      else if isDigit c then Continue (One (t @ [c])) st
      else SyntaxError c ''in numeric literal'')"
| "feed (Zero t) st c = zero_next t st c"
| "feed (One t) st c =
     (if isDigit c then Continue (One (t @ [c])) st else zero_next t st c)"
| "feed (Dot t) st c =
     (if isDigit c then Continue (Dot0 (t @ [c])) st
      else SyntaxError c ''after decimal point in numeric literal'')"
| "feed (Dot0 t) st c =
     (if isDigit c then Continue (Dot0 (t @ [c])) st
      else if c = CHR ''e'' \<or> c = CHR ''E'' then Continue (Exp (t @ [c])) st
      else after_number t st c)"
| "feed (Exp t) st c =
     (if c = CHR ''+'' \<or> c = CHR ''-'' then Continue (ESign (t @ [c])) st
      else esign_next t st c)"
| "feed (ESign t) st c = esign_next t st c"
| "feed (E0 t) st c =
     (if isDigit c then Continue (E0 (t @ [c])) st else after_number t st c)"
| "feed (InLiteral name [] v) st c = scalar_done v st"
| "feed (InLiteral name (x # xs) v) st c =
     (if c = x then (if xs = [] then scalar_done v st else Continue (InLiteral name xs v) st)
      else SyntaxError c
             (''in literal '' @ name @ '' (expecting '' @ [CHR 0x27, x, CHR 0x27] @ '')''))"
| "feed (EndTop v) st c =
     (if isSpace c then End v else SyntaxError c ''after top-level value'')"

text \<open>
  The input is exhausted. The decoder offers the scanner a space: a complete
  top-level value ends there; otherwise the error is \<open>io.EOF\<close> when nothing but
  white space was read and \<open>io.ErrUnexpectedEOF\<close> when the input ends inside a value.
\<close>

fun at_EOF :: "step \<Rightarrow> frame list \<Rightarrow> error + jvalue \<times> string" where
  "at_EOF (EndTop v) st = Inr (v, [])"
| "at_EOF (Zero t) [] = Inr (VNumber t, [])"
| "at_EOF (One t) [] = Inr (VNumber t, [])"
| "at_EOF (Dot0 t) [] = Inr (VNumber t, [])"
| "at_EOF (E0 t) [] = Inr (VNumber t, [])"
| "at_EOF BeginValue [] = Inl (errors_New ''EOF'')"
| "at_EOF s st = Inl (errors_New ''unexpected EOF'')"

text \<open>
  Reading a value: the value and the input left behind it, or the error. A syntax
  error reads \<open>invalid character 'c' ...\<close>; the quoting of the character is that of
  \<open>encoding/json\<close> for printable characters other than the quotes.
\<close>

fun scan :: "step \<Rightarrow> frame list \<Rightarrow> string \<Rightarrow> error + jvalue \<times> string" where
  "scan s st [] = at_EOF s st"
| "scan s st (c # cs) =
     (case feed s st c of
        Continue s' st' \<Rightarrow> scan s' st' cs
      | End v \<Rightarrow> Inr (v, cs)
      | SyntaxError d ctx \<Rightarrow>
          Inl (errors_New (''invalid character '' @ [CHR 0x27, d, CHR 0x27] @ '' '' @ ctx)))"


text \<open>
  \<open>Decode\<close> of the decoder: the first value of the input is read and stored into
  the payload by \<open>unmarshal\<close>, the store for the payload's type. What follows the
  value in the input is not looked at.
\<close>

definition Decoder_Decode ::
  "(jvalue \<Rightarrow> 'T \<Rightarrow> 'T \<times> error option) \<Rightarrow> string \<Rightarrow> 'T \<Rightarrow> 'T \<times> error option"
where
  "Decoder_Decode unmarshal input payload =
     (case scan BeginValue [] input of
        Inl e \<Rightarrow> (payload, Some e)
      | Inr (v, rest) \<Rightarrow> unmarshal v payload)"

subsection \<open>Storing a value into a \<open>Record\<close>\<close>

text \<open>
  The fields \<open>encoding/json\<close> sees in a \<open>Record\<close>: its own five and the three promoted
  from the embedded \<open>*gorm.Model\<close> (whose \<open>ID\<close> is hidden). A key names a field when
  it is the field's name, or else when it is so up to the case of its letters. Keys
  that name no field are skipped.
\<close>

definition Record_fields :: "string list" where
  "Record_fields =
     [''ID'', ''Name'', ''Age'', ''Address'', ''PhoneNumber'',
      ''CreatedAt'', ''UpdatedAt'', ''DeletedAt'']"

definition lower :: "char \<Rightarrow> char" where
  "lower c =
     (if 65 \<le> (of_char c :: nat) \<and> (of_char c :: nat) \<le> 90
      then char_of ((of_char c :: nat) + 32) else c)"

definition field_of :: "string \<Rightarrow> string option" where
  "field_of key =
     (if key \<in> set Record_fields then Some key
      else find (\<lambda>f. map lower f = map lower key) Record_fields)"

fun kind :: "jvalue \<Rightarrow> string" where
  "kind VNull = ''null''"
| "kind (VBool b) = ''bool''"
| "kind (VNumber t) = ''number''"
| "kind (VString s) = ''string''"
| "kind (VArray vs) = ''array''"
| "kind (VObject ms) = ''object''"

definition UnmarshalTypeError :: "string \<Rightarrow> string \<Rightarrow> string \<Rightarrow> error" where
  "UnmarshalTypeError val field ty =
     errors_New (''json: cannot unmarshal '' @ val @ '' into Go struct field Record.'' @
                 field @ '' of type '' @ ty)"

text \<open>
  \<open>strconv.ParseInt(s, 10, 64)\<close> on the text of a JSON number: an optional minus
  sign and digits, within 64 bits.
\<close>

definition ParseInt :: "string \<Rightarrow> int option" where
  "ParseInt t =
     (let neg = (t \<noteq> [] \<and> hd t = CHR ''-'');
          ds = (if neg then tl t else t);
          n = fold (\<lambda>c n. 10 * n + int ((of_char c :: nat) - 48)) ds 0;
          i = (if neg then - n else n)
      in if ds \<noteq> [] \<and> list_all isDigit ds \<and> - (2 ^ 63) \<le> i \<and> i < 2 ^ 63
         then Some i else None)"

text \<open>
  \<open>UnmarshalText\<close> of \<open>uuid.UUID\<close> (\<open>uuid.ParseBytes\<close>): 36 characters in the usual
  grouping, the same behind \<open>urn:uuid:\<close> or inside one-character brackets, or 32
  hexadecimal digits. The messages for a wrong length and a wrong prefix are given
  without the length and the prefix that end them in Go.
\<close>

fun hex_pairs :: "string \<Rightarrow> nat list option" where
  "hex_pairs [] = Some []"
| "hex_pairs [c] = None"
| "hex_pairs (a # b # cs) =
     (case (hexval a, hexval b, hex_pairs cs) of
        (Some x, Some y, Some r) \<Rightarrow> Some ((16 * x + y) # r)
      | _ \<Rightarrow> None)"

definition UUID_of_bytes :: "nat list \<Rightarrow> UUID" where
  "UUID_of_bytes bs = fold (\<lambda>b u. 256 * u + of_nat b) bs 0"

definition grouped :: "string \<Rightarrow> error + UUID" where
  "grouped b =
     (if b ! 8 \<noteq> CHR ''-'' \<or> b ! 13 \<noteq> CHR ''-'' \<or> b ! 18 \<noteq> CHR ''-'' \<or> b ! 23 \<noteq> CHR ''-''
      then Inl (errors_New ''invalid UUID format'')
      else (case hex_pairs (take 8 b @ take 4 (drop 9 b) @ take 4 (drop 14 b) @
                            take 4 (drop 19 b) @ take 12 (drop 24 b)) of
              None \<Rightarrow> Inl (errors_New ''invalid UUID format'')
            | Some bs \<Rightarrow> Inr (UUID_of_bytes bs)))"

definition ParseBytes :: "string \<Rightarrow> error + UUID" where
  "ParseBytes b =
     (if length b = 36 then grouped b
      else if length b = 45 then
        (if map lower (take 9 b) = ''urn:uuid:'' then grouped (drop 9 b)
         else Inl (errors_New ''invalid urn prefix''))
      else if length b = 38 then grouped (drop 1 b)
      else if length b = 32 then
        (case hex_pairs b of
           None \<Rightarrow> Inl (errors_New ''invalid UUID format'')
         | Some bs \<Rightarrow> Inr (UUID_of_bytes bs))
      else Inl (errors_New ''invalid UUID length''))"

text \<open>
  Storing one value into one field. A value of the wrong kind is a type error:
  the field is left alone, the error is kept and decoding goes on (\<open>Mismatch\<close>). An
  error of \<open>UnmarshalText\<close> or \<open>UnmarshalJSON\<close> ends decoding (\<open>Aborted\<close>). \<open>null\<close>
  leaves a field as it is. A key of a promoted field allocates the embedded model
  when the pointer is nil. The text of a time is stored unchecked, where
  \<open>time.Time\<close> would reject a string that is not RFC 3339.
\<close>

datatype stored = Stored Record | Mismatch Record error | Aborted Record error

definition zero_Model :: gorm_Model where
  "zero_Model =
     \<lparr>Model_ID = 0, CreatedAt = ''0001-01-01T00:00:00Z'', UpdatedAt = ''0001-01-01T00:00:00Z'',
      DeletedAt = None\<rparr>"

definition store_string ::
  "string \<Rightarrow> (string \<Rightarrow> Record) \<Rightarrow> jvalue \<Rightarrow> Record \<Rightarrow> stored"
where
  "store_string field upd v r =
     (case v of
        VString s \<Rightarrow> Stored (upd s)
      | VNull \<Rightarrow> Stored r
      | _ \<Rightarrow> Mismatch r (UnmarshalTypeError (kind v) field ''string''))"

definition store_time ::
  "(string \<Rightarrow> gorm_Model \<Rightarrow> gorm_Model) \<Rightarrow> jvalue \<Rightarrow> Record \<Rightarrow> stored"
where
  "store_time upd v r =
     (let m = (case Model r of None \<Rightarrow> zero_Model | Some m \<Rightarrow> m)
      in case v of
           VString s \<Rightarrow> Stored (r\<lparr>Model := Some (upd s m)\<rparr>)
         | VNull \<Rightarrow> Stored (r\<lparr>Model := Some m\<rparr>)
         | _ \<Rightarrow> Aborted (r\<lparr>Model := Some m\<rparr>)
                  (errors_New ''Time.UnmarshalJSON: input is not a JSON string''))"

definition store_field :: "string \<Rightarrow> jvalue \<Rightarrow> Record \<Rightarrow> stored" where
  "store_field field v r =
     (if field = ''ID'' then
        (case v of
           VString s \<Rightarrow>
             (case ParseBytes s of Inl e \<Rightarrow> Aborted r e | Inr u \<Rightarrow> Stored (r\<lparr>ID := u\<rparr>))
         | VNull \<Rightarrow> Stored r
         | _ \<Rightarrow> Mismatch r (UnmarshalTypeError (kind v) field ''uuid.UUID''))
      else if field = ''Name'' then store_string field (\<lambda>s. r\<lparr>Name := s\<rparr>) v r
      else if field = ''Age'' then
        (case v of
           VNumber t \<Rightarrow>
             (case ParseInt t of
                Some i \<Rightarrow> Stored (r\<lparr>Age := word_of_int i\<rparr>)
              | None \<Rightarrow> Mismatch r (UnmarshalTypeError (''number '' @ t) field ''int''))
         | VNull \<Rightarrow> Stored r
         | _ \<Rightarrow> Mismatch r (UnmarshalTypeError (kind v) field ''int''))
      else if field = ''Address'' then store_string field (\<lambda>s. r\<lparr>Address := s\<rparr>) v r
      else if field = ''PhoneNumber'' then store_string field (\<lambda>s. r\<lparr>PhoneNumber := s\<rparr>) v r
      else if field = ''CreatedAt'' then store_time (\<lambda>s m. m\<lparr>CreatedAt := s\<rparr>) v r
      else if field = ''UpdatedAt'' then store_time (\<lambda>s m. m\<lparr>UpdatedAt := s\<rparr>) v r
      else store_time (\<lambda>s m. m\<lparr>DeletedAt := Some s\<rparr>) v r)"

text \<open>
  The members of an object, in the order written; the first type error is the one
  reported at the end.
\<close>

fun store_members ::
  "(string \<times> jvalue) list \<Rightarrow> Record \<Rightarrow> error option \<Rightarrow> Record \<times> error option"
where
  "store_members [] r saved = (r, saved)"
| "store_members ((k, v) # ms) r saved =
     (case field_of k of
        None \<Rightarrow> store_members ms r saved
      | Some f \<Rightarrow>
          (case store_field f v r of
             Stored r' \<Rightarrow> store_members ms r' saved
           | Mismatch r' e \<Rightarrow>
               store_members ms r' (case saved of None \<Rightarrow> Some e | Some e0 \<Rightarrow> Some e0)
           | Aborted r' e \<Rightarrow> (r', Some e)))"

text \<open>
  A value into a \<open>Record\<close>: an object is stored member by member, \<open>null\<close> changes
  nothing and is no error, anything else is a type error.
\<close>

definition unmarshal_Record :: "jvalue \<Rightarrow> Record \<Rightarrow> Record \<times> error option" where
  "unmarshal_Record v r =
     (case v of
        VObject ms \<Rightarrow> store_members ms r None
      | VNull \<Rightarrow> (r, None)
      | _ \<Rightarrow>
          (r, Some (errors_New (''json: cannot unmarshal '' @ kind v @
                                '' into Go value of type record.Record''))))"


section \<open>What a client receives, and sample inputs\<close>

text \<open>
  The response as it goes over the wire: the status, the \<open>Content-Type\<close> among the
  headers sent with it, and the body.
\<close>

definition response :: "ResponseWriter option \<Rightarrow> (nat \<times> string option \<times> chunk list) option" where
  "response w = map_option (\<lambda>w. (statusCode w, sent w ''Content-Type'', written w)) w"

text \<open>The values of the members of the object a body consists of, if it is one object.\<close>

fun object_values :: "chunk list \<Rightarrow> json list" where
  "object_values [Doc (JObject fs)] = map snd fs"
| "object_values _ = []"

text \<open>
  A response to \<open>POST /person\<close> gives back a submitted person when its status is 201
  and the four values are members of the object in its body.
\<close>

definition gives_back ::
  "string \<Rightarrow> int \<Rightarrow> string \<Rightarrow> string \<Rightarrow> (nat \<times> string option \<times> chunk list) option \<Rightarrow> bool"
where
  "gives_back name age address phoneNumber resp =
     (case resp of
        None \<Rightarrow> False
      | Some (code, ctype, b) \<Rightarrow>
          code = StatusCreated \<and>
          JString name \<in> set (object_values b) \<and>
          JNumber age \<in> set (object_values b) \<and>
          JString address \<in> set (object_values b) \<and>
          JString phoneNumber \<in> set (object_values b))"

text \<open>Any number of \<open>GetRecords\<close> calls in a row, each with its own answer from the store.\<close>

definition GetRecords_calls :: "find_env list \<Rightarrow> world \<Rightarrow> world" where
  "GetRecords_calls envs s = fold (\<lambda>env s. snd (RecordRepository_GetRecords env s)) envs s"

definition world0 :: world where
  "world0 = \<lparr>heap = Map.empty, next_free = 0, Database = \<lparr>rows = []\<rparr>\<rparr>"

definition bob :: generated where
  "bob = \<lparr>uuid_New = 0x123e4567e89b42d3a456426614174000, faker_Name = ''Bob Stone'',
          rand_Int = 41, gofakeit_Address = ''9 Elm Rd'', gofakeit_Phone = ''555-0199''\<rparr>"

definition bob_record :: Record where
  "bob_record = \<lparr>ID = 0x123e4567e89b42d3a456426614174000, Name = ''Bob Stone'', Age = 41,
                 Address = ''9 Elm Rd'', PhoneNumber = ''555-0199'', Model = None\<rparr>"

definition eve_record :: Record where
  "eve_record = \<lparr>ID = 0x9b2f3c1ad4e54f6a8b7c0d1e2f3a4b5c, Name = ''Eve Hale'', Age = 29,
                 Address = ''3 Oak Ave'', PhoneNumber = ''555-0142'', Model = None\<rparr>"

definition world2 :: world where
  "world2 = \<lparr>heap = Map.empty, next_free = 0, Database = \<lparr>rows = [bob_record, eve_record]\<rparr>\<rparr>"

definition alice_request :: Request where
  \<open>alice_request =
     \<lparr>Method = ''POST'', Path = ''/person'',
      Body = ''{"name":"Alice","age":30,"address":"1 Main St","phoneNumber":"555-0100"}''\<rparr>\<close>

definition get_request :: Request where
  "get_request = \<lparr>Method = ''GET'', Path = ''/person'', Body = []\<rparr>"

definition refused :: error where
  "refused = errors_New ''dial tcp 127.0.0.1:5432: connect: connection refused''"

definition stored :: create_env where
  "stored = \<lparr>failure = None, stamped = None\<rparr>"

definition unreachable :: create_env where
  "unreachable = \<lparr>failure = Some refused, stamped = None\<rparr>"

text \<open>
  The body \<open>{"name":\<close> ends inside a value. The body of \<open>garbage_request\<close> is the
  object describing Alice followed by a closing brace too many.
\<close>

definition zero_Record :: Record where
  "zero_Record = \<lparr>ID = 0, Name = [], Age = 0, Address = [], PhoneNumber = [], Model = None\<rparr>"



definition alice_payload :: Record where
  "alice_payload =
     \<lparr>ID = 0, Name = ''Alice'', Age = 30, Address = ''1 Main St'', PhoneNumber = ''555-0100'',
      Model = None\<rparr>"

text \<open>A create that succeeds, \<open>gorm\<close> stamping the times of the insert into the entity.\<close>

definition audit :: gorm_Model where
  "audit =
     \<lparr>Model_ID = 0, CreatedAt = ''2024-05-01T10:00:00Z'', UpdatedAt = ''2024-05-01T10:00:00Z'',
      DeletedAt = None\<rparr>"

definition stamping :: create_env where
  "stamping = \<lparr>failure = None, stamped = Some audit\<rparr>"

definition bob_stored :: Record where
  "bob_stored =
     \<lparr>ID = 0x123e4567e89b42d3a456426614174000, Name = ''Bob Stone'', Age = 41,
      Address = ''9 Elm Rd'', PhoneNumber = ''555-0199'', Model = Some audit\<rparr>"

section \<open>Facts about the writer, the encoder and the wrappers\<close>

lemma UUID_String_length: "length (UUID_String u) = 36"
  by (simp add: UUID_String_def UUID_bytes_def hex_byte_def Let_def
      upt_rec[of _ "numeral _"] upt_rec[of _ "Suc _"])

lemma http_Error_fresh:
  "http_Error NewResponseWriter msg code =
     \<lparr>Header = [''Content-Type'' \<mapsto> ''text/plain; charset=utf-8'',
                ''X-Content-Type-Options'' \<mapsto> ''nosniff''],
      wroteHeader = True, statusCode = code,
      sent = [''Content-Type'' \<mapsto> ''text/plain; charset=utf-8'',
              ''X-Content-Type-Options'' \<mapsto> ''nosniff''],
      written = [Plain (msg @ [CHR 0x0A])], superfluous = []\<rparr>"
  by (simp add: http_Error_def Write_def WriteHeader_def Header_Set_def Header_Del_def
      NewResponseWriter_def)

lemma Json_fresh:
  "response (Json NewResponseWriter (Inr doc) code) =
     Some (code, Some ''application/json'', [Doc doc])"
  by (simp add: response_def Json_def Write_def WriteHeader_def Header_Set_def
      NewResponseWriter_def)


text \<open>
  \<open>Json\<close> on a writer that \<open>http.Error\<close> has used: the status and the headers are
  gone already, so the second status is superfluous and the document lands behind the
  error text.
\<close>

lemma Json_after_Error:
  "response (Json (http_Error NewResponseWriter msg code) (Inr doc) code') =
     Some (code, Some ''text/plain; charset=utf-8'', [Plain (msg @ [CHR 0x0A]), Doc doc])"
  by (simp add: http_Error_fresh response_def Json_def Write_def WriteHeader_def Header_Set_def)

lemma Json_after_Error_superfluous:
  "map_option superfluous (Json (http_Error NewResponseWriter msg code) (Inr doc) code') =
     Some [code']"
  by (simp add: http_Error_fresh Json_def Write_def WriteHeader_def Header_Set_def)

text \<open>The two handlers on a fresh writer, by the outcome of the repository call.\<close>

lemma CreateRecord_handler_fails:
  "fst (RecordHandler_CreateRecord g \<lparr>failure = Some e, stamped = m\<rparr> NewResponseWriter r s) =
     Json (http_Error NewResponseWriter (Error e) 500) (Inr JNull) 201"
  by (simp add: RecordHandler_CreateRecord_def RecordRepository_CreateRecord_def
      gorm_Create_def NewRecord_def Let_def Marshal_RecordPtr_def StatusCreated_def
      StatusInternalServerError_def)

lemma CreateRecord_handler_succeeds:
  "fst (RecordHandler_CreateRecord g \<lparr>failure = None, stamped = m\<rparr> NewResponseWriter r s) =
     Json NewResponseWriter
       (Inr (Marshal_Record
          \<lparr>ID = uuid_New g, Name = faker_Name g, Age = rand_Int g,
           Address = gofakeit_Address g, PhoneNumber = gofakeit_Phone g, Model = m\<rparr>))
       201"
  by (simp add: RecordHandler_CreateRecord_def RecordRepository_CreateRecord_def
      gorm_Create_def NewRecord_def Let_def Marshal_RecordPtr_def StatusCreated_def
      StatusInternalServerError_def)

lemma GetRecords_handler_fails:
  "fst (RecordHandler_GetRecords (FindFails e) NewResponseWriter r s) =
     Json (http_Error NewResponseWriter (Error e) 500) (Inr JNull) 200"
  by (simp add: RecordHandler_GetRecords_def RecordRepository_GetRecords_def Let_def
      Marshal_Records_def StatusOK_def StatusInternalServerError_def)

lemma GetRecords_handler_succeeds:
  "fst (RecordHandler_GetRecords (Found rs) NewResponseWriter r s) =
     Json NewResponseWriter (Marshal_Records rs) 200"
  by (simp add: RecordHandler_GetRecords_def RecordRepository_GetRecords_def Let_def
      StatusOK_def StatusInternalServerError_def)

text \<open>\<open>Decode\<close> and \<open>IsValid\<close> hand on what the libraries return, unchanged.\<close>

lemma Decode_forwards: "Decode dec zero b = dec b zero"
  by (simp add: Decode_def split: prod.splits option.splits)

lemma IsValid_forwards: "IsValid val p = val p"
  by (simp add: IsValid_def)

text \<open>
  \<open>HandleBody\<close> past the decode stage: a payload the validator rejects gets a 400
  response with the validator's text; one it accepts is returned and nothing is written.
\<close>

lemma HandleBody_validation_error:
  "dec (Body r) zero = (p, None) \<Longrightarrow> val p = Some e \<Longrightarrow>
     HandleBody dec zero val w r = (Json w (Inr (JString (Error e))) 400, None, Some e)"
  by (simp add: HandleBody_def Decode_forwards IsValid_forwards Marshal_string_def
      StatusBadRequest_def)


text \<open>The world after a repository call.\<close>

lemma CreateRecord_world:
  "snd (RecordRepository_CreateRecord env e s) = snd (gorm_Create env e s)"
  by (cases "gorm_Create env e s")
     (auto simp add: RecordRepository_CreateRecord_def split: option.splits)

lemma GetRecords_world: "snd (RecordRepository_GetRecords env s) = s"
  by (cases env) (auto simp add: RecordRepository_GetRecords_def)

lemma gorm_Create_keeps_ID:
  "heap s b = Some r \<Longrightarrow> \<exists>r'. heap (snd (gorm_Create env e s)) b = Some r' \<and> ID r' = ID r"
  by (auto simp add: gorm_Create_def Let_def split: option.splits)

text \<open>
  \<open>GetRecords\<close> returns the slice as \<open>Find\<close> left it, and the handler encodes it as it
  is: on an empty table the body is \<open>null\<close> when \<open>Find\<close> leaves the slice nil and \<open>[]\<close>
  when it stores an empty slice.
\<close>

lemma GetRecords_returns_slice:
  "RecordRepository_GetRecords (Found rs) s = ((rs, None), s)"
  by (simp add: RecordRepository_GetRecords_def)

lemma GetRecords_handler_nil_slice:
  "response (fst (RecordHandler_GetRecords (Found None) NewResponseWriter r s)) =
     Some (200, Some ''application/json'', [Doc JNull])"
  by (simp add: GetRecords_handler_succeeds Marshal_Records_def Json_fresh)

lemma GetRecords_handler_empty_slice:
  "response (fst (RecordHandler_GetRecords (Found (Some [])) NewResponseWriter r s)) =
     Some (200, Some ''application/json'', [Doc (JArray [])])"
  by (simp add: GetRecords_handler_succeeds Marshal_Records_def Json_fresh)

section \<open>POST /person when the store cannot be reached\<close>

text \<open>
  C1. When the repository's create returns an error, the handler should write status
  500 with the error text as the body and write no 201 response for the same request.
  The handler does not return after \<open>http.Error\<close>. At the request below, with the
  database refusing the connection, the client gets status 500 and the error text, but
  \<open>response.Json\<close> still runs: it calls \<open>WriteHeader(201)\<close>, which is superfluous, and
  appends the document \<open>null\<close> to the body.
\<close>

theorem CreateRecord_handler_writes_201_after_error:
  "response (fst (RecordHandler_CreateRecord bob unreachable NewResponseWriter alice_request world0)) =
     Some (500, Some ''text/plain; charset=utf-8'',
       [Plain (''dial tcp 127.0.0.1:5432: connect: connection refused'' @ [CHR 0x0A]),
        Doc JNull]) \<and>
   map_option superfluous
     (fst (RecordHandler_CreateRecord bob unreachable NewResponseWriter alice_request world0)) =
     Some [201]"
  by (simp add: unreachable_def refused_def CreateRecord_handler_fails Json_after_Error
      Json_after_Error_superfluous)

section \<open>POST /person when the record is stored\<close>

text \<open>
  C2, as stated: the response to the request whose body describes Alice (30,
  1 Main St, 555-0100) has status 201 and gives back the four submitted values. It
  does not: the handler never reads the request, and with \<open>NewRecord\<close> drawing Bob's
  values the body holds none of Alice's.
\<close>

theorem CreateRecord_handler_ignores_body:
  "\<not> gives_back ''Alice'' 30 ''1 Main St'' ''555-0100''
       (response (fst (RecordHandler_CreateRecord bob stored NewResponseWriter alice_request world0)))"
  by (simp add: stored_def CreateRecord_handler_succeeds Json_fresh gives_back_def
      Marshal_Record_def bob_def Marshal_Model_def StatusCreated_def)

text \<open>
  C2, amended: for every request \<open>r\<close>, whatever its body, when the record is stored
  the response has status 201 and content type \<open>application/json\<close>, and its body is
  one object holding the id and the name, age, address and phone number that
  \<open>NewRecord\<close> generated, followed by what \<open>gorm\<close> left in the embedded model; the id
  is not empty.
\<close>

theorem CreateRecord_handler_returns_generated:
  "response (fst (RecordHandler_CreateRecord g \<lparr>failure = None, stamped = m\<rparr> NewResponseWriter r s)) =
     Some (201, Some ''application/json'',
       [Doc (JObject
          ([(''ID'', JString (UUID_String (uuid_New g))),
            (''Name'', JString (faker_Name g)),
            (''Age'', JNumber (sint (rand_Int g))),
            (''Address'', JString (gofakeit_Address g)),
            (''PhoneNumber'', JString (gofakeit_Phone g))] @ Marshal_Model m))]) \<and>
   UUID_String (uuid_New g) \<noteq> []"
  using UUID_String_length[of "uuid_New g"]
  by (auto simp add: CreateRecord_handler_succeeds Json_fresh Marshal_Record_def)

section \<open>HandleBody and the decoder\<close>

lemma Decoder_Decode_Alice:
  "Decoder_Decode unmarshal_Record (Body alice_request) zero_Record = (alice_payload, None)"
  by code_simp







section \<open>The repository's create\<close>

text \<open>
  C4. For every entity pointer \<open>e\<close>, \<open>CreateRecord\<close> returns \<open>(e, nil)\<close>, the very
  pointer it was given, when the database create reports no error, and \<open>(nil, err)\<close>
  with the database's error \<open>err\<close> when it reports one; there is no third outcome.
\<close>

theorem CreateRecord_outcomes:
  "(fst (gorm_Create env e s) = None \<longrightarrow>
      RecordRepository_CreateRecord env e s = ((e, None), snd (gorm_Create env e s))) \<and>
   (\<forall>err. fst (gorm_Create env e s) = Some err \<longrightarrow>
      RecordRepository_CreateRecord env e s = ((None, Some err), snd (gorm_Create env e s))) \<and>
   (fst (RecordRepository_CreateRecord env e s) = (e, None) \<or>
    (\<exists>err. fst (RecordRepository_CreateRecord env e s) = (None, Some err)))"
  by (cases "gorm_Create env e s"; cases "fst (gorm_Create env e s)")
     (auto simp add: RecordRepository_CreateRecord_def)

theorem CreateRecord_outcomes_witness:
  "fst (gorm_Create stored (Some 0) (snd (NewRecord bob world0))) = None \<and>
   fst (RecordRepository_CreateRecord stored (Some 0) (snd (NewRecord bob world0))) =
     (Some 0, None) \<and>
   fst (gorm_Create unreachable (Some 0) (snd (NewRecord bob world0))) = Some refused \<and>
   fst (RecordRepository_CreateRecord unreachable (Some 0) (snd (NewRecord bob world0))) =
     (None, Some refused)"
  using CreateRecord_outcomes[of stored "Some 0" "snd (NewRecord bob world0)"]
        CreateRecord_outcomes[of unreachable "Some 0" "snd (NewRecord bob world0)"]
  by (simp add: gorm_Create_def NewRecord_def world0_def stored_def unreachable_def Let_def)

section \<open>The id of a record\<close>

text \<open>
  C6. The id of a record is assigned by the constructor, before the record is
  persisted, and nothing changes it afterwards. \<open>NewRecord\<close> puts the generated id
  into the record it allocates. Every record on the heap has the same id after
  \<open>CreateRecord\<close> (whatever pointer it is called on, whether the insert fails or
  not) and after \<open>GetRecords\<close>. When a new record is created and the insert
  succeeds, \<open>CreateRecord\<close> returns the pointer constructed and no error, the record
  behind it carries the constructor's id, and so does the one row added to the table.
  When the insert fails, the record constructed still carries the constructor's id.
\<close>

theorem Record_ID_never_changes:
  "map_option ID (heap (snd (NewRecord g s)) (fst (NewRecord g s))) = Some (uuid_New g) \<and>
   (\<forall>b r. heap s b = Some r \<longrightarrow>
      map_option ID (heap (snd (RecordRepository_CreateRecord env e s)) b) = Some (ID r) \<and>
      map_option ID (heap (snd (RecordRepository_GetRecords fenv s)) b) = Some (ID r)) \<and>
   (let (p, s1) = NewRecord g s;
        ((q, err), s2) =
          RecordRepository_CreateRecord \<lparr>failure = None, stamped = m\<rparr> (Some p) s1
    in q = Some p \<and> err = None \<and>
       map_option ID (heap s2 p) = Some (uuid_New g) \<and>
       map ID (rows (Database s2)) = map ID (rows (Database s)) @ [uuid_New g]) \<and>
   (let (p, s1) = NewRecord g s;
        ((q, err), s2) =
          RecordRepository_CreateRecord \<lparr>failure = Some x, stamped = m\<rparr> (Some p) s1
    in q = None \<and> err = Some x \<and>
       map_option ID (heap s2 p) = Some (uuid_New g) \<and>
       rows (Database s2) = rows (Database s))"
proof -
  have a: "map_option ID (heap (snd (NewRecord g s)) (fst (NewRecord g s))) = Some (uuid_New g)"
    by (simp add: NewRecord_def Let_def)
  have b: "map_option ID (heap (snd (RecordRepository_CreateRecord env e s)) b) = Some (ID r)"
    if "heap s b = Some r" for b r
    using gorm_Create_keeps_ID[OF that, of env e] by (auto simp add: CreateRecord_world)
  have c: "map_option ID (heap (snd (RecordRepository_GetRecords fenv s)) b) = Some (ID r)"
    if "heap s b = Some r" for b r
    using that by (simp add: GetRecords_world)
  have d: "(let (p, s1) = NewRecord g s;
                ((q, err), s2) =
                  RecordRepository_CreateRecord \<lparr>failure = None, stamped = m\<rparr> (Some p) s1
            in q = Some p \<and> err = None \<and>
               map_option ID (heap s2 p) = Some (uuid_New g) \<and>
               map ID (rows (Database s2)) = map ID (rows (Database s)) @ [uuid_New g])"
    by (simp add: NewRecord_def RecordRepository_CreateRecord_def gorm_Create_def Let_def)
  have f: "(let (p, s1) = NewRecord g s;
                ((q, err), s2) =
                  RecordRepository_CreateRecord \<lparr>failure = Some x, stamped = m\<rparr> (Some p) s1
            in q = None \<and> err = Some x \<and>
               map_option ID (heap s2 p) = Some (uuid_New g) \<and>
               rows (Database s2) = rows (Database s))"
    by (simp add: NewRecord_def RecordRepository_CreateRecord_def gorm_Create_def Let_def)
  show ?thesis using a b c d f by blast
qed

text \<open>
  Bob is constructed in an empty world and stored, \<open>gorm\<close> stamping the times of the
  insert: the pointer returned is the one constructed, the record behind it and the
  row in the table carry Bob's id, and a listing that returns the row leaves it so.
\<close>

theorem Record_ID_never_changes_witness:
  "NewRecord bob world0 = (0, snd (NewRecord bob world0)) \<and>
   heap (snd (NewRecord bob world0)) 0 = Some bob_record \<and>
   fst (RecordRepository_CreateRecord stamping (Some 0) (snd (NewRecord bob world0))) =
     (Some 0, None) \<and>
   heap (snd (RecordRepository_CreateRecord stamping (Some 0) (snd (NewRecord bob world0)))) 0 =
     Some bob_stored \<and>
   map_option ID
     (heap (snd (RecordRepository_CreateRecord stamping (Some 0) (snd (NewRecord bob world0)))) 0) =
     Some (uuid_New bob) \<and>
   map ID (rows (Database
     (snd (RecordRepository_CreateRecord stamping (Some 0) (snd (NewRecord bob world0)))))) =
     [uuid_New bob] \<and>
   map_option ID
     (heap (snd (RecordRepository_GetRecords (Found (Some [bob_stored]))
             (snd (RecordRepository_CreateRecord stamping (Some 0) (snd (NewRecord bob world0))))))
        0) =
     Some (ID bob_stored)"
proof -
  let ?s1 = "snd (NewRecord bob world0)"
  let ?s2 = "snd (RecordRepository_CreateRecord stamping (Some 0) ?s1)"
  have n: "NewRecord bob world0 = (0, ?s1)"
    by (simp add: NewRecord_def world0_def Let_def)
  have h1: "heap ?s1 0 = Some bob_record"
    by (simp add: NewRecord_def world0_def bob_def bob_record_def Let_def)
  have h2: "heap ?s2 0 = Some bob_stored"
    by (simp add: RecordRepository_CreateRecord_def gorm_Create_def NewRecord_def world0_def
        bob_def bob_stored_def stamping_def Let_def)
  have r0: "rows (Database world0) = []"
    by (simp add: world0_def)
  have f0: "fst (NewRecord bob world0) = 0"
    by (simp add: NewRecord_def world0_def Let_def)
  have t: "fst (RecordRepository_CreateRecord stamping (Some 0) ?s1) = (Some 0, None) \<and>
           map_option ID (heap ?s2 0) = Some (uuid_New bob) \<and>
           map ID (rows (Database ?s2)) = [uuid_New bob]"
    using Record_ID_never_changes[where g = bob and s = world0 and m = "Some audit"
        and env = stamping and e = None and fenv = "Found (Some [])" and x = refused]
    by (simp add: case_prod_beta f0 r0 stamping_def prod_eq_iff)
  have l: "map_option ID (heap (snd (RecordRepository_GetRecords (Found (Some [bob_stored])) ?s2)) 0) =
             Some (ID bob_stored)"
    using h2 Record_ID_never_changes[where s = ?s2 and fenv = "Found (Some [bob_stored])"]
    by blast
  show ?thesis using n h1 h2 t l by simp
qed

section \<open>What listing and creating do to the table\<close>

text \<open>
  C7. Listing has no side effect on what is persisted: after any number of
  \<open>GetRecords\<close> calls, whatever the store answers to each, the world and with it the
  rows of the table are what they were. Each successful \<open>CreateRecord\<close> call inserts
  exactly one row: the table afterwards is the table before with one row appended, the
  entity the call was given.
\<close>

theorem GetRecords_reads_only_and_CreateRecord_adds_one_row:
  "GetRecords_calls envs s = s \<and>
   rows (Database (GetRecords_calls envs s)) = rows (Database s) \<and>
   (snd (fst (RecordRepository_CreateRecord env e s)) = None \<longrightarrow>
      (\<exists>a r. e = Some a \<and>
         heap (snd (RecordRepository_CreateRecord env e s)) a = Some r \<and>
         rows (Database (snd (RecordRepository_CreateRecord env e s))) =
           rows (Database s) @ [r]))"
proof -
  have g: "GetRecords_calls envs s = s"
    unfolding GetRecords_calls_def by (induction envs) (simp_all add: GetRecords_world)
  have c: "snd (fst (RecordRepository_CreateRecord env e s)) = None \<longrightarrow>
      (\<exists>a r. e = Some a \<and>
         heap (snd (RecordRepository_CreateRecord env e s)) a = Some r \<and>
         rows (Database (snd (RecordRepository_CreateRecord env e s))) =
           rows (Database s) @ [r])"
    by (auto simp add: RecordRepository_CreateRecord_def gorm_Create_def Let_def
        split: option.splits)
  show ?thesis using g c by simp
qed

theorem GetRecords_reads_only_and_CreateRecord_adds_one_row_witness:
  "snd (fst (RecordRepository_CreateRecord stored (Some 0) (snd (NewRecord bob world0)))) = None \<and>
   length (rows (Database
     (snd (RecordRepository_CreateRecord stored (Some 0) (snd (NewRecord bob world0)))))) = 1 \<and>
   rows (Database (GetRecords_calls [Found None, FindFails refused, Found (Some [])] world0)) = []"
proof -
  have h: "snd (fst (RecordRepository_CreateRecord stored (Some 0) (snd (NewRecord bob world0)))) =
             None"
    by (simp add: RecordRepository_CreateRecord_def gorm_Create_def NewRecord_def world0_def
        stored_def Let_def)
  have r: "rows (Database (snd (NewRecord bob world0))) = []"
    by (simp add: NewRecord_def world0_def Let_def)
  have l: "length (rows (Database
     (snd (RecordRepository_CreateRecord stored (Some 0) (snd (NewRecord bob world0)))))) = 1"
    using h r
      GetRecords_reads_only_and_CreateRecord_adds_one_row[of "[]" "snd (NewRecord bob world0)"
        stored "Some 0"]
    by auto
  have g: "rows (Database (GetRecords_calls [Found None, FindFails refused, Found (Some [])] world0)) = []"
    using GetRecords_reads_only_and_CreateRecord_adds_one_row[of
        "[Found None, FindFails refused, Found (Some [])]" world0 stored None]
    by (simp add: world0_def)
  show ?thesis using h l g by simp
qed

section \<open>Listing twice\<close>

text \<open>
  C8. Two \<open>GetRecords\<close> calls with no create between them return the same
  collection up to the order of the elements: when both succeed, on answers the
  table can give, the two slices hold the same records, each as often, and so the
  same set of records.
\<close>

theorem GetRecords_twice_same_elements:
  assumes "answers env1 s"
    and "RecordRepository_GetRecords env1 s = ((rs1, None), s1)"
    and "answers env2 s1"
    and "RecordRepository_GetRecords env2 s1 = ((rs2, None), s2)"
  shows "mset (elems rs1) = mset (elems rs2) \<and> set (elems rs1) = set (elems rs2)"
proof -
  have s1: "s1 = s"
    using assms(2) GetRecords_world[of env1 s] by simp
  have r1: "mset (elems rs1) = mset (rows (Database s))"
    using assms(1,2) by (cases env1) (auto simp add: RecordRepository_GetRecords_def)
  have r2: "mset (elems rs2) = mset (rows (Database s))"
    using assms(3,4) unfolding s1
    by (cases env2) (auto simp add: RecordRepository_GetRecords_def)
  have "mset (elems rs1) = mset (elems rs2)"
    using r1 r2 by simp
  then show ?thesis
    using mset_eq_setD by blast
qed

text \<open>The table holds Bob and Eve; the store lists them in one order, then in the other.\<close>

theorem GetRecords_twice_same_elements_witness:
  "answers (Found (Some [bob_record, eve_record])) world2 \<and>
   answers (Found (Some [eve_record, bob_record])) world2 \<and>
   RecordRepository_GetRecords (Found (Some [bob_record, eve_record])) world2 =
     ((Some [bob_record, eve_record], None), world2) \<and>
   RecordRepository_GetRecords (Found (Some [eve_record, bob_record])) world2 =
     ((Some [eve_record, bob_record], None), world2) \<and>
   set (elems (Some [bob_record, eve_record])) = set (elems (Some [eve_record, bob_record]))"
proof -
  have a1: "answers (Found (Some [bob_record, eve_record])) world2"
    by (simp add: world2_def)
  have a2: "answers (Found (Some [eve_record, bob_record])) world2"
    by (simp add: world2_def)
  have g1: "RecordRepository_GetRecords (Found (Some [bob_record, eve_record])) world2 =
              ((Some [bob_record, eve_record], None), world2)"
    by (simp add: RecordRepository_GetRecords_def)
  have g2: "RecordRepository_GetRecords (Found (Some [eve_record, bob_record])) world2 =
              ((Some [eve_record, bob_record], None), world2)"
    by (simp add: RecordRepository_GetRecords_def)
  show ?thesis
    using GetRecords_twice_same_elements[OF a1 g1 a2 g2] a1 a2 g1 g2 by simp
qed

section \<open>The content type of the responses\<close>

text \<open>
  C9, as stated: every response, error responses included, carries the content type
  \<open>application/json\<close>. It does not: when the database refuses the connection the
  response to \<open>POST /person\<close> goes out through \<open>http.Error\<close>, whose content type is
  plain text.
\<close>

theorem error_response_is_not_json:
  "map_option (\<lambda>(code, ctype, b). ctype)
     (response (fst (RecordHandler_CreateRecord bob unreachable NewResponseWriter alice_request
                       world0)))
   \<noteq> Some (Some ''application/json'')"
  by (simp add: unreachable_def CreateRecord_handler_fails Json_after_Error)

text \<open>
  C9, amended: on both routes, the response sent when the repository call succeeds
  (201 on \<open>POST /person\<close>, 200 on \<open>GET /person\<close>) carries the content type
  \<open>application/json\<close>; the 500 response sent when the repository call fails carries
  \<open>text/plain; charset=utf-8\<close>.
\<close>

theorem Content_Type_by_outcome:
  "map_option (\<lambda>(code, ctype, b). (code, ctype))
     (response (fst (RecordHandler_CreateRecord g \<lparr>failure = None, stamped = m\<rparr>
                       NewResponseWriter r s))) =
     Some (201, Some ''application/json'') \<and>
   map_option (\<lambda>(code, ctype, b). (code, ctype))
     (response (fst (RecordHandler_GetRecords (Found rs) NewResponseWriter r s))) =
     Some (200, Some ''application/json'') \<and>
   map_option (\<lambda>(code, ctype, b). (code, ctype))
     (response (fst (RecordHandler_CreateRecord g \<lparr>failure = Some e, stamped = m\<rparr>
                       NewResponseWriter r s))) =
     Some (500, Some ''text/plain; charset=utf-8'') \<and>
   map_option (\<lambda>(code, ctype, b). (code, ctype))
     (response (fst (RecordHandler_GetRecords (FindFails e) NewResponseWriter r s))) =
     Some (500, Some ''text/plain; charset=utf-8'')"
  by (cases rs)
     (simp_all add: CreateRecord_handler_succeeds CreateRecord_handler_fails
        GetRecords_handler_succeeds GetRecords_handler_fails Json_fresh Json_after_Error
        Marshal_Records_def)

end
